theory Spec2Isabelle
  imports Main
begin

section \<open>JavaScript values read by the schedule resolver\<close>

text \<open>
  The departure schedule is untrusted JSON, so the embedding keeps every shape a decoded
  JSON document can have, plus \<open>undefined\<close> (an absent property) and \<open>NaN\<close> (a failed
  integer parse). Numbers are the integers: seat counts and whole prices, in the range
  where the arithmetic of doubles is exact and a number prints as its decimal digits.
  Strings are strings of ASCII characters. An object is the association list of its own
  properties, read with \<open>map_of\<close>.
\<close>

datatype jsval =
    Undefined
  | Null
  | Bool bool
  | Num int
  | NaN
  | Str string
  | Arr "jsval list"
  | Obj "(string \<times> jsval) list"

datatype error = TypeError

text \<open>
  The two platform functions the code relies on and the embedding does not fix:
  \<open>JSON.parse\<close> (\<open>None\<close> when it throws a SyntaxError) and the conversion of a string
  to a number that a comparison with \<open>0\<close> performs.
\<close>

record platform =
  JSON_parse :: "string \<Rightarrow> jsval option"
  StringToNumber :: "string \<Rightarrow> jsval"

fun truthy :: "jsval \<Rightarrow> bool" where
  "truthy Undefined = False"
| "truthy Null = False"
| "truthy (Bool b) = b"
| "truthy (Num n) = (n \<noteq> 0)"
| "truthy NaN = False"
| "truthy (Str s) = (s \<noteq> [])"
| "truthy (Arr xs) = True"
| "truthy (Obj kvs) = True"

text \<open>\<open>a || b\<close>\<close>

definition js_or :: "jsval \<Rightarrow> jsval \<Rightarrow> jsval" where
  "js_or a b = (if truthy a then a else b)"

fun typeof :: "jsval \<Rightarrow> string" where
  "typeof Undefined = ''undefined''"
| "typeof Null = ''object''"
| "typeof (Bool b) = ''boolean''"
| "typeof (Num n) = ''number''"
| "typeof NaN = ''number''"
| "typeof (Str s) = ''string''"
| "typeof (Arr xs) = ''object''"
| "typeof (Obj kvs) = ''object''"

fun nullish :: "jsval \<Rightarrow> bool" where
  "nullish Undefined = True"
| "nullish Null = True"
| "nullish v = False"

fun isArray :: "jsval \<Rightarrow> bool" where
  "isArray (Arr xs) = True"
| "isArray v = False"

fun elems :: "jsval \<Rightarrow> jsval list" where
  "elems (Arr xs) = xs"
| "elems v = []"

text \<open>
  \<open>v?.k\<close> for the property names this program reads. None of them is a property of a
  built-in prototype except \<open>length\<close>, which arrays and strings have.
\<close>

fun getq :: "jsval \<Rightarrow> string \<Rightarrow> jsval" where
  "getq (Obj kvs) k = (case map_of kvs k of Some v \<Rightarrow> v | None \<Rightarrow> Undefined)"
| "getq (Arr xs) k = (if k = ''length'' then Num (int (length xs)) else Undefined)"
| "getq (Str s) k = (if k = ''length'' then Num (int (length s)) else Undefined)"
| "getq v k = Undefined"

text \<open>\<open>v.k\<close>: reading a property of \<open>null\<close> or \<open>undefined\<close> throws.\<close>

definition dot :: "jsval \<Rightarrow> string \<Rightarrow> error + jsval" where
  "dot v k = (if nullish v then Inl TypeError else Inr (getq v k))"

text \<open>\<open>v?.[0]\<close>\<close>

fun elem0 :: "jsval \<Rightarrow> jsval" where
  "elem0 (Arr xs) = (case xs of [] \<Rightarrow> Undefined | x # _ \<Rightarrow> x)"
| "elem0 (Obj kvs) = (case map_of kvs ''0'' of Some v \<Rightarrow> v | None \<Rightarrow> Undefined)"
| "elem0 (Str s) = (case s of [] \<Rightarrow> Undefined | c # _ \<Rightarrow> Str [c])"
| "elem0 v = Undefined"

subsection \<open>Conversion to strings and numbers\<close>

fun digit_char :: "nat \<Rightarrow> char" where
  "digit_char d = char_of (48 + d)"

fun digits :: "nat \<Rightarrow> string" where
  "digits n = (if n < 10 then [digit_char n] else digits (n div 10) @ [digit_char (n mod 10)])"

declare digits.simps [simp del]

fun join :: "string \<Rightarrow> string list \<Rightarrow> string" where
  "join sep [] = []"
| "join sep [x] = x"
| "join sep (x # y # ys) = x @ sep @ join sep (y # ys)"

fun toString :: "jsval \<Rightarrow> string" where
  "toString Undefined = ''undefined''"
| "toString Null = ''null''"
| "toString (Bool b) = (if b then ''true'' else ''false'')"
| "toString (Num n) = (if n < 0 then CHR ''-'' # digits (nat (- n)) else digits (nat n))"
| "toString NaN = ''NaN''"
| "toString (Str s) = s"
| "toString (Arr xs) = join '','' (map (\<lambda>x. if nullish x then [] else toString x) xs)"
| "toString (Obj kvs) = ''[object Object]''"

text \<open>\<open>xs.join(sep)\<close>\<close>

definition js_join :: "string \<Rightarrow> jsval list \<Rightarrow> string" where
  "js_join sep xs = join sep (map (\<lambda>x. if nullish x then [] else toString x) xs)"

fun toPrimitive :: "jsval \<Rightarrow> jsval" where
  "toPrimitive (Arr xs) = Str (toString (Arr xs))"
| "toPrimitive (Obj kvs) = Str (toString (Obj kvs))"
| "toPrimitive v = v"

fun isStr :: "jsval \<Rightarrow> bool" where
  "isStr (Str s) = True"
| "isStr v = False"

fun toNumber :: "platform \<Rightarrow> jsval \<Rightarrow> jsval" where
  "toNumber P Undefined = NaN"
| "toNumber P Null = Num 0"
| "toNumber P (Bool b) = Num (if b then 1 else 0)"
| "toNumber P (Num n) = Num n"
| "toNumber P NaN = NaN"
| "toNumber P (Str s) = StringToNumber P s"
| "toNumber P (Arr xs) = StringToNumber P (toString (Arr xs))"
| "toNumber P (Obj kvs) = StringToNumber P (toString (Obj kvs))"

text \<open>\<open>v > 0\<close>\<close>

definition js_gt0 :: "platform \<Rightarrow> jsval \<Rightarrow> bool" where
  "js_gt0 P v = (case toNumber P v of Num n \<Rightarrow> 0 < n | _ \<Rightarrow> False)"

text \<open>
  \<open>a + b\<close>: concatenation as soon as one operand is a string once arrays and objects
  are made primitive, addition of numbers otherwise. No string reaches \<open>toNumber\<close> here.
\<close>

definition js_add :: "platform \<Rightarrow> jsval \<Rightarrow> jsval \<Rightarrow> jsval" where
  "js_add P a b =
     (let pa = toPrimitive a; pb = toPrimitive b in
      if isStr pa \<or> isStr pb then Str (toString pa @ toString pb)
      else (case (toNumber P pa, toNumber P pb) of
              (Num x, Num y) \<Rightarrow> Num (x + y)
            | _ \<Rightarrow> NaN))"

subsection \<open>parseInt\<close>

definition is_ws :: "char \<Rightarrow> bool" where
  "is_ws c = (c \<in> set [CHR '' '', CHR 0x09, CHR 0x0A, CHR 0x0B, CHR 0x0C, CHR 0x0D])"

definition digit_val :: "char \<Rightarrow> nat option" where
  "digit_val c =
     (let n = of_char c :: nat in
      if 48 \<le> n \<and> n \<le> 57 then Some (n - 48)
      else if 97 \<le> n \<and> n \<le> 102 then Some (n - 87)
      else if 65 \<le> n \<and> n \<le> 70 then Some (n - 55)
      else None)"

definition is_digit :: "nat \<Rightarrow> char \<Rightarrow> bool" where
  "is_digit radix c = (case digit_val c of Some d \<Rightarrow> d < radix | None \<Rightarrow> False)"

definition digits_value :: "nat \<Rightarrow> string \<Rightarrow> nat" where
  "digits_value radix z = foldl (\<lambda>acc c. acc * radix + (case digit_val c of Some d \<Rightarrow> d | None \<Rightarrow> 0)) 0 z"

text \<open>
  \<open>parseInt(v)\<close> with no radix: the string of \<open>v\<close> without leading white space, an
  optional sign, an optional \<open>0x\<close> prefix that selects base 16, then the longest run of
  digits; \<open>NaN\<close> when that run is empty.
\<close>

definition parseInt :: "jsval \<Rightarrow> jsval" where
  "parseInt v =
     (let s = dropWhile is_ws (toString v);
          neg = (case s of c # _ \<Rightarrow> c = CHR ''-'' | [] \<Rightarrow> False);
          s1 = (case s of c # r \<Rightarrow> if c = CHR ''-'' \<or> c = CHR ''+'' then r else s | [] \<Rightarrow> s);
          hex = (take 2 s1 = ''0x'' \<or> take 2 s1 = ''0X'');
          radix = (if hex then 16 else 10);
          s2 = (if hex then drop 2 s1 else s1);
          z = takeWhile (is_digit radix) s2
      in if z = [] then NaN
         else Num ((if neg then - 1 else 1) * int (digits_value radix z)))"

section \<open>formatTourData: the departure schedule\<close>

text \<open>
  \<open>formatTourData\<close> in \<open>src/services/bookingService.js\<close>: the block that decodes
  and reads \<open>acf.departure_schedule\<close> (lines 426 to 484), the pricing tiers (lines 495
  to 501) and the fields of the returned object that depend on the schedule (lines 523
  to 553). The images, the identifiers and the other fields copied from the WordPress
  record are left out; they do not read the schedule.

  What these lines read: the raw \<open>acf.departure_schedule\<close>, the names of the
  destination terms, \<open>acf.location\<close>, \<open>acf.duration\<close> and \<open>title.rendered\<close>.
\<close>

record tour_in =
  departure_schedule :: jsval
  destinations :: "jsval list"
  acf_location :: jsval
  acf_duration :: jsval
  title_rendered :: jsval

text \<open>The availability fields of the object \<open>formatTourData\<close> returns.\<close>

record tour =
  location :: jsval
  duration :: jsval
  pricePerPerson :: jsval
  priceAdult :: jsval
  childWithBed :: jsval
  childWithoutBed :: jsval
  extraAdultSameRoom :: jsval
  singleRoomSupplement :: jsval
  pricingTiers :: jsval
  availableDates :: "jsval list"
  departureDate :: jsval
  departureSchedule :: jsval
  minTravelers :: jsval
  maxTravelers :: jsval
  seatsAvailable :: jsval
  addons :: jsval

text \<open>
  The value of the local \<open>departureSchedule\<close> after the decoding step: the parsed
  string, the object itself, or \<open>null\<close>.
\<close>

definition parseSchedule :: "platform \<Rightarrow> jsval \<Rightarrow> jsval" where
  "parseSchedule P raw =
     (if truthy raw then
        (case raw of
           Str s \<Rightarrow> (case JSON_parse P s of Some v \<Rightarrow> v | None \<Rightarrow> Null)
         | _ \<Rightarrow> (if typeof raw = ''object'' then raw else Null))
      else Null)"

text \<open>\<open>departures.filter(d => d.status !== 'sold_out')\<close>\<close>

fun filterAvailable :: "jsval list \<Rightarrow> error + jsval list" where
  "filterAvailable [] = Inr []"
| "filterAvailable (d # ds) =
     (case dot d ''status'' of
        Inl e \<Rightarrow> Inl e
      | Inr s \<Rightarrow>
          (case filterAvailable ds of
             Inl e \<Rightarrow> Inl e
           | Inr r \<Rightarrow> Inr (if s \<noteq> Str ''sold_out'' then d # r else r)))"

text \<open>\<open>.map(d => d.date)\<close>\<close>

fun mapDate :: "jsval list \<Rightarrow> error + jsval list" where
  "mapDate [] = Inr []"
| "mapDate (d # ds) =
     (case dot d ''date'' of
        Inl e \<Rightarrow> Inl e
      | Inr x \<Rightarrow> (case mapDate ds of Inl e \<Rightarrow> Inl e | Inr r \<Rightarrow> Inr (x # r)))"

text \<open>\<open>.reduce((sum, d) => sum + (d.availableSeats || 0), 0)\<close>, from the accumulator.\<close>

fun reduceSeats :: "platform \<Rightarrow> jsval \<Rightarrow> jsval list \<Rightarrow> error + jsval" where
  "reduceSeats P acc [] = Inr acc"
| "reduceSeats P acc (d # ds) =
     (case dot d ''availableSeats'' of
        Inl e \<Rightarrow> Inl e
      | Inr a \<Rightarrow> reduceSeats P (js_add P acc (js_or a (Num 0))) ds)"

text \<open>\<open>departures.find(d => d.status !== 'sold_out')\<close>, \<open>undefined\<close> when there is none.\<close>

fun findAvailable :: "jsval list \<Rightarrow> error + jsval" where
  "findAvailable [] = Inr Undefined"
| "findAvailable (d # ds) =
     (case dot d ''status'' of
        Inl e \<Rightarrow> Inl e
      | Inr s \<Rightarrow> if s \<noteq> Str ''sold_out'' then Inr d else findAvailable ds)"

text \<open>The locals the schedule block assigns, with their initial values.\<close>

record locals =
  l_availableDates :: "jsval list"
  l_seatsAvailable :: jsval
  l_pricingTiersFromSchedule :: jsval
  l_pricePerPerson :: jsval

definition init_locals :: locals where
  "init_locals =
     \<lparr>l_availableDates = [], l_seatsAvailable = Num 0,
      l_pricingTiersFromSchedule = Arr [], l_pricePerPerson = Num 0\<rparr>"

text \<open>The body run when \<open>departureSchedule.departures\<close> is an array.\<close>

definition readDepartures :: "platform \<Rightarrow> jsval list \<Rightarrow> error + locals" where
  "readDepartures P departures =
     (case filterAvailable departures of
        Inl e \<Rightarrow> Inl e
      | Inr av \<Rightarrow>
     (case mapDate av of
        Inl e \<Rightarrow> Inl e
      | Inr dates \<Rightarrow>
     (case filterAvailable departures of
        Inl e \<Rightarrow> Inl e
      | Inr av2 \<Rightarrow>
     (case reduceSeats P (Num 0) av2 of
        Inl e \<Rightarrow> Inl e
      | Inr seats \<Rightarrow>
     (case findAvailable departures of
        Inl e \<Rightarrow> Inl e
      | Inr firstDeparture \<Rightarrow>
          Inr \<lparr>l_availableDates = dates,
               l_seatsAvailable = seats,
               l_pricingTiersFromSchedule =
                 (if truthy firstDeparture
                    \<and> truthy (getq firstDeparture ''pricingTiers'')
                    \<and> js_gt0 P (getq (getq firstDeparture ''pricingTiers'') ''length'')
                  then getq firstDeparture ''pricingTiers'' else Arr []),
               l_pricePerPerson =
                 (if truthy firstDeparture
                  then js_or (getq firstDeparture ''pricePerPerson'') (Num 0)
                  else Num 0)\<rparr>)))))"

definition formatTourData :: "platform \<Rightarrow> tour_in \<Rightarrow> error + tour" where
  "formatTourData P wpTour =
     (let departureScheduleRaw = departure_schedule wpTour;
          sched = parseSchedule P departureScheduleRaw;
          first = elem0 (getq sched ''departures'');
          metadata = getq sched ''metadata''
      in
      case (if truthy departureScheduleRaw \<and> truthy sched
               \<and> truthy (getq sched ''departures'') \<and> isArray (getq sched ''departures'')
            then readDepartures P (elems (getq sched ''departures''))
            else Inr init_locals) of
        Inl e \<Rightarrow> Inl e
      | Inr l \<Rightarrow>
          (let noDates = (\<not> truthy sched \<or> l_availableDates l = []);
               dates = (if noDates then [] else l_availableDates l);
               seats = (if noDates then Num 0 else l_seatsAvailable l);
               tiers = (if getq (l_pricingTiersFromSchedule l) ''length'' = Num 0
                        then Arr [] else l_pricingTiersFromSchedule l)
           in Inr
             \<lparr>location =
                js_or (getq metadata ''location'')
                  (js_or (Str (js_join '', '' (destinations wpTour)))
                     (js_or (acf_location wpTour) (Str ''India''))),
              duration =
                js_or (getq metadata ''duration'')
                  (js_or (acf_duration wpTour)
                     (js_or (title_rendered wpTour) (Str ''7 Days / 6 Nights''))),
              pricePerPerson = l_pricePerPerson l,
              priceAdult = l_pricePerPerson l,
              childWithBed = js_or (getq first ''childWithBed'') (Num 0),
              childWithoutBed = js_or (getq first ''childWithoutBed'') (Num 0),
              extraAdultSameRoom = js_or (getq first ''extraAdultSameRoom'') (Num 0),
              singleRoomSupplement = js_or (getq first ''singleRoomSupplement'') (Num 0),
              pricingTiers = tiers,
              availableDates = dates,
              departureDate =
                js_or (case dates of [] \<Rightarrow> Undefined | x # _ \<Rightarrow> x) (Str []),
              departureSchedule = sched,
              minTravelers = parseInt (js_or (getq metadata ''minTravelers'') (Num 1)),
              maxTravelers = parseInt (js_or (getq metadata ''maxTravelers'') (Num 30)),
              seatsAvailable = seats,
              addons = js_or (getq first ''addons'') (Arr [])\<rparr>))"

section \<open>A platform to run the examples on\<close>

text \<open>
  A decoder for the JSON documents whose numbers are integers and whose strings use the
  one-letter escapes only. On these it returns what \<open>JSON.parse\<close> returns (a repeated key
  keeps its first position and takes its last value), and it rejects every text that is
  not JSON. The recursion is bounded by a counter that the caller sets above the length
  of the text.
\<close>

definition json_ws :: "char \<Rightarrow> bool" where
  "json_ws c = (c \<in> set [CHR '' '', CHR 0x09, CHR 0x0A, CHR 0x0D])"

definition unescape :: "char \<Rightarrow> char option" where
  "unescape e =
     (if e = CHR 0x22 \<or> e = CHR 0x5C \<or> e = CHR ''/'' then Some e
      else if e = CHR ''b'' then Some (CHR 0x08)
      else if e = CHR ''f'' then Some (CHR 0x0C)
      else if e = CHR ''n'' then Some (CHR 0x0A)
      else if e = CHR ''r'' then Some (CHR 0x0D)
      else if e = CHR ''t'' then Some (CHR 0x09)
      else None)"

fun string_body :: "string \<Rightarrow> string \<Rightarrow> (string \<times> string) option" where
  "string_body acc [] = None"
| "string_body acc [c] = (if c = CHR 0x22 then Some (rev acc, []) else None)"
| "string_body acc (c # e # cs) =
     (if c = CHR 0x22 then Some (rev acc, e # cs)
      else if c = CHR 0x5C then
        (case unescape e of None \<Rightarrow> None | Some x \<Rightarrow> string_body (x # acc) cs)
      else if (of_char c :: nat) < 32 then None
      else string_body (c # acc) (e # cs))"

definition number_lit :: "string \<Rightarrow> (jsval \<times> string) option" where
  "number_lit s =
     (let neg = (take 1 s = ''-'');
          s1 = (if neg then drop 1 s else s);
          z = takeWhile (is_digit 10) s1;
          r = dropWhile (is_digit 10) s1
      in if z = [] \<or> (1 < length z \<and> take 1 z = ''0'') then None
         else if take 1 r = ''.'' \<or> take 1 r = ''e'' \<or> take 1 r = ''E'' then None
         else Some (Num ((if neg then - 1 else 1) * int (digits_value 10 z)), r))"

fun set_prop :: "string \<Rightarrow> jsval \<Rightarrow> (string \<times> jsval) list \<Rightarrow> (string \<times> jsval) list" where
  "set_prop k v [] = [(k, v)]"
| "set_prop k v ((k', v') # ps) =
     (if k' = k then (k, v) # ps else (k', v') # set_prop k v ps)"

fun value_lit :: "nat \<Rightarrow> string \<Rightarrow> (jsval \<times> string) option"
  and elements :: "nat \<Rightarrow> jsval list \<Rightarrow> string \<Rightarrow> (jsval \<times> string) option"
  and members :: "nat \<Rightarrow> (string \<times> jsval) list \<Rightarrow> string \<Rightarrow> (jsval \<times> string) option"
where
  "value_lit 0 s = None"
| "value_lit (Suc n) s =
     (case dropWhile json_ws s of
        [] \<Rightarrow> None
      | c # r \<Rightarrow>
          if c = CHR ''{'' then
            (case dropWhile json_ws r of
               [] \<Rightarrow> None
             | c' # r' \<Rightarrow> if c' = CHR ''}'' then Some (Obj [], r') else members n [] r)
          else if c = CHR ''['' then
            (case dropWhile json_ws r of
               [] \<Rightarrow> None
             | c' # r' \<Rightarrow> if c' = CHR '']'' then Some (Arr [], r') else elements n [] r)
          else if c = CHR 0x22 then
            (case string_body [] r of None \<Rightarrow> None | Some (x, r') \<Rightarrow> Some (Str x, r'))
          else if take 4 (c # r) = ''true'' then Some (Bool True, drop 4 (c # r))
          else if take 5 (c # r) = ''false'' then Some (Bool False, drop 5 (c # r))
          else if take 4 (c # r) = ''null'' then Some (Null, drop 4 (c # r))
          else number_lit (c # r))"
| "elements 0 acc s = None"
| "elements (Suc n) acc s =
     (case value_lit n s of
        None \<Rightarrow> None
      | Some (v, r) \<Rightarrow>
          (case dropWhile json_ws r of
             [] \<Rightarrow> None
           | c # r' \<Rightarrow>
               if c = CHR '','' then elements n (acc @ [v]) r'
               else if c = CHR '']'' then Some (Arr (acc @ [v]), r')
               else None))"
| "members 0 acc s = None"
| "members (Suc n) acc s =
     (case dropWhile json_ws s of
        [] \<Rightarrow> None
      | q # r \<Rightarrow>
          if q \<noteq> CHR 0x22 then None
          else
            (case string_body [] r of
               None \<Rightarrow> None
             | Some (k, r1) \<Rightarrow>
                 (case dropWhile json_ws r1 of
                    [] \<Rightarrow> None
                  | c # r2 \<Rightarrow>
                      if c \<noteq> CHR '':'' then None
                      else
                        (case value_lit n r2 of
                           None \<Rightarrow> None
                         | Some (v, r3) \<Rightarrow>
                             (case dropWhile json_ws r3 of
                                [] \<Rightarrow> None
                              | c' # r4 \<Rightarrow>
                                  if c' = CHR '','' then members n (set_prop k v acc) r4
                                  else if c' = CHR ''}'' then Some (Obj (set_prop k v acc), r4)
                                  else None)))))"

definition json_decode :: "string \<Rightarrow> jsval option" where
  "json_decode s =
     (case value_lit (Suc (length s)) s of
        None \<Rightarrow> None
      | Some (v, r) \<Rightarrow> if dropWhile json_ws r = [] then Some v else None)"

text \<open>
  The number a string denotes, for the strings that are empty or a decimal integer once
  white space is trimmed; \<open>NaN\<close> stands for the others.
\<close>

definition decimal_number :: "string \<Rightarrow> jsval" where
  "decimal_number s =
     (let t = rev (dropWhile is_ws (rev (dropWhile is_ws s)));
          neg = (take 1 t = ''-'');
          t1 = (if neg \<or> take 1 t = ''+'' then drop 1 t else t)
      in if t = [] then Num 0
         else if t1 \<noteq> [] \<and> list_all (is_digit 10) t1
         then Num ((if neg then - 1 else 1) * int (digits_value 10 t1))
         else NaN)"

definition node :: platform where
  "node = \<lparr>JSON_parse = json_decode, StringToNumber = decimal_number\<rparr>"

section \<open>The vocabulary of the specification\<close>

text \<open>A departure is sold out when its status is the string \<open>sold_out\<close>, and only then.\<close>

definition sold_out :: "jsval \<Rightarrow> bool" where
  "sold_out d = (getq d ''status'' = Str ''sold_out'')"

text \<open>The anchor departure: the first one in source order that is not sold out.\<close>

definition anchor :: "jsval list \<Rightarrow> jsval option" where
  "anchor ds = find (\<lambda>d. \<not> sold_out d) ds"








text \<open>The tour record around a raw schedule field in the examples.\<close>

definition tour_with :: "jsval \<Rightarrow> tour_in" where
  "tour_with raw =
     \<lparr>departure_schedule = raw, destinations = [Str ''Goa''],
      acf_location = Undefined, acf_duration = Str ''5 Days'',
      title_rendered = Str ''Goa Beaches''\<rparr>"

text \<open>No element is \<open>null\<close> or \<open>undefined\<close>: every property read succeeds.\<close>

definition readable :: "jsval list \<Rightarrow> bool" where
  "readable ds = list_all (\<lambda>d. \<not> nullish d) ds"

text \<open>The value the reduction leaves, as a fold.\<close>

definition seats_fold :: "platform \<Rightarrow> jsval \<Rightarrow> jsval list \<Rightarrow> jsval" where
  "seats_fold P acc ds =
     foldl (\<lambda>s d. js_add P s (js_or (getq d ''availableSeats'') (Num 0))) acc ds"

definition anchor_val :: "jsval list \<Rightarrow> jsval" where
  "anchor_val ds = (case anchor ds of None \<Rightarrow> Undefined | Some d \<Rightarrow> d)"




section \<open>Example schedules\<close>

definition dep_sold_500 :: jsval where
  "dep_sold_500 =
     Obj [(''date'', Str ''2025-05-01''), (''status'', Str ''sold_out''),
          (''availableSeats'', Num 10), (''pricePerPerson'', Num 100),
          (''childWithBed'', Num 500), (''addons'', Arr [Str ''kayak''])]"





definition schedule_of :: "jsval list \<Rightarrow> jsval" where
  "schedule_of ds = Obj [(''departures'', Arr ds)]"



definition spec_text :: string where
  "spec_text =
     ''{\"departures\":[{\"date\":\"2025-05-01\",\"status\":\"open\",\"availableSeats\":4}]}''"

definition spec_structure :: jsval where
  "spec_structure =
     Obj [(''departures'',
           Arr [Obj [(''date'', Str ''2025-05-01''), (''status'', Str ''open''),
                     (''availableSeats'', Num 4)]])]"

section \<open>How the schedule block computes\<close>

text \<open>
  The array methods throw on the first \<open>null\<close> element and are the list functions
  otherwise.
\<close>

lemma error_eq [simp]: "(e::error) = TypeError"
  by (cases e) simp

lemma filterAvailable_ok:
  "readable ds \<Longrightarrow> filterAvailable ds = Inr (filter (\<lambda>d. \<not> sold_out d) ds)"
  by (induction ds) (auto simp: readable_def dot_def sold_out_def)

lemma filterAvailable_err:
  "\<not> readable ds \<Longrightarrow> filterAvailable ds = Inl TypeError"
  by (induction ds) (auto simp: readable_def dot_def split: sum.splits)

lemma mapDate_ok:
  "readable ds \<Longrightarrow> mapDate ds = Inr (map (\<lambda>d. getq d ''date'') ds)"
  by (induction ds) (auto simp: readable_def dot_def)

lemma reduceSeats_ok:
  "readable ds \<Longrightarrow> reduceSeats P acc ds = Inr (seats_fold P acc ds)"
  by (induction ds arbitrary: acc) (auto simp: readable_def dot_def seats_fold_def)

lemma findAvailable_ok:
  "readable ds \<Longrightarrow> findAvailable ds = Inr (anchor_val ds)"
  by (induction ds) (auto simp: readable_def dot_def sold_out_def anchor_def anchor_val_def)

lemma readable_filter: "readable ds \<Longrightarrow> readable (filter p ds)"
  by (induction ds) (auto simp: readable_def)

lemma falsy_getq: "\<not> truthy v \<Longrightarrow> \<not> truthy (getq v k)"
  by (cases v) auto

lemma readDepartures_err: "\<not> readable ds \<Longrightarrow> readDepartures P ds = Inl TypeError"
  by (simp add: readDepartures_def filterAvailable_err)

lemma readDepartures_ok:
  assumes r: "readable ds"
  shows "readDepartures P ds =
     Inr \<lparr>l_availableDates = map (\<lambda>d. getq d ''date'') (filter (\<lambda>d. \<not> sold_out d) ds),
          l_seatsAvailable = seats_fold P (Num 0) (filter (\<lambda>d. \<not> sold_out d) ds),
          l_pricingTiersFromSchedule =
            (if truthy (getq (anchor_val ds) ''pricingTiers'')
                \<and> js_gt0 P (getq (getq (anchor_val ds) ''pricingTiers'') ''length'')
             then getq (anchor_val ds) ''pricingTiers'' else Arr []),
          l_pricePerPerson = js_or (getq (anchor_val ds) ''pricePerPerson'') (Num 0)\<rparr>"
proof -
  have f: "readable (filter (\<lambda>d. \<not> sold_out d) ds)"
    using r by (rule readable_filter)
  have g: "\<not> truthy v \<Longrightarrow> js_or (getq v k) (Num 0) = Num 0" for v k
    using falsy_getq [of v k] by (simp add: js_or_def)
  show ?thesis
    by (simp add: readDepartures_def filterAvailable_ok [OF r] mapDate_ok [OF f]
        reduceSeats_ok [OF f] findAvailable_ok [OF r] falsy_getq g)
qed

lemma departures_array_truthy:
  assumes "getq (parseSchedule P raw) ''departures'' = Arr ds"
  shows "truthy raw \<and> truthy (parseSchedule P raw)"
proof -
  have a: "getq v ''departures'' = Arr ds \<Longrightarrow> truthy v" for v
    by (cases v) (auto split: if_splits)
  have b: "truthy (parseSchedule P raw) \<Longrightarrow> truthy raw"
    by (auto simp: parseSchedule_def split: if_splits)
  from a [OF assms] b show ?thesis by simp
qed

lemma anchor_None_iff: "anchor ds = None \<longleftrightarrow> filter (\<lambda>d. \<not> sold_out d) ds = []"
  by (auto simp add: anchor_def find_None_iff filter_empty_conv)

lemma seats_fold_Nil [simp]: "seats_fold P acc [] = acc"
  by (simp add: seats_fold_def)

lemma js_gt0_zero [simp]: "\<not> js_gt0 P (Num 0)"
  by (simp add: js_gt0_def)

text \<open>The result when \<open>departures\<close> is an array none of whose elements is null.\<close>

lemma formatTourData_run:
  assumes d: "getq (parseSchedule P (departure_schedule w)) ''departures'' = Arr ds"
    and r: "readable ds"
  shows "\<exists>t. formatTourData P w = Inr t
    \<and> availableDates t = map (\<lambda>d. getq d ''date'') (filter (\<lambda>d. \<not> sold_out d) ds)
    \<and> seatsAvailable t = seats_fold P (Num 0) (filter (\<lambda>d. \<not> sold_out d) ds)
    \<and> pricePerPerson t = js_or (getq (anchor_val ds) ''pricePerPerson'') (Num 0)
    \<and> pricingTiers t =
        (if truthy (getq (anchor_val ds) ''pricingTiers'')
            \<and> js_gt0 P (getq (getq (anchor_val ds) ''pricingTiers'') ''length'')
         then getq (anchor_val ds) ''pricingTiers'' else Arr [])
    \<and> childWithBed t = js_or (getq (elem0 (Arr ds)) ''childWithBed'') (Num 0)
    \<and> childWithoutBed t = js_or (getq (elem0 (Arr ds)) ''childWithoutBed'') (Num 0)
    \<and> extraAdultSameRoom t = js_or (getq (elem0 (Arr ds)) ''extraAdultSameRoom'') (Num 0)
    \<and> singleRoomSupplement t =
        js_or (getq (elem0 (Arr ds)) ''singleRoomSupplement'') (Num 0)
    \<and> addons t = js_or (getq (elem0 (Arr ds)) ''addons'') (Arr [])
    \<and> departureSchedule t = parseSchedule P (departure_schedule w)"
proof -
  note tr = departures_array_truthy [OF d]
  have e: "map f xs = [] \<Longrightarrow> seats_fold P (Num 0) xs = Num 0" for f :: "jsval \<Rightarrow> jsval" and xs
    by simp
  show ?thesis
    using tr e [of "\<lambda>d. getq d ''date''" "filter (\<lambda>d. \<not> sold_out d) ds"]
    by (auto simp add: formatTourData_def Let_def d readDepartures_ok [OF r])
qed

lemma formatTourData_throw:
  assumes d: "getq (parseSchedule P (departure_schedule w)) ''departures'' = Arr ds"
    and r: "\<not> readable ds"
  shows "formatTourData P w = Inl TypeError"
  using departures_array_truthy [OF d]
  by (simp add: formatTourData_def Let_def d readDepartures_err [OF r])

text \<open>The result when the block that reads the departures is skipped.\<close>

lemma formatTourData_skip:
  assumes d: "\<not> isArray (getq (parseSchedule P (departure_schedule w)) ''departures'')"
  shows "\<exists>t. formatTourData P w = Inr t
    \<and> availableDates t = [] \<and> seatsAvailable t = Num 0
    \<and> pricePerPerson t = Num 0 \<and> pricingTiers t = Arr []
    \<and> departureSchedule t = parseSchedule P (departure_schedule w)
    \<and> childWithBed t =
        js_or (getq (elem0 (getq (departureSchedule t) ''departures'')) ''childWithBed'') (Num 0)
    \<and> childWithoutBed t =
        js_or (getq (elem0 (getq (departureSchedule t) ''departures'')) ''childWithoutBed'') (Num 0)
    \<and> extraAdultSameRoom t =
        js_or (getq (elem0 (getq (departureSchedule t) ''departures'')) ''extraAdultSameRoom'') (Num 0)
    \<and> singleRoomSupplement t =
        js_or (getq (elem0 (getq (departureSchedule t) ''departures'')) ''singleRoomSupplement'') (Num 0)"
  using d by (simp add: formatTourData_def Let_def init_locals_def)

subsection \<open>parseInt reads back the decimal digits of a number\<close>










subsection \<open>Well-formed departures\<close>

lemma map_sum_InrD: "map_sum f g x = Inr v \<Longrightarrow> \<exists>r. x = Inr r \<and> g r = v"
  by (cases x) auto








section \<open>The claims\<close>

text \<open>
  C1, as the code has it. Whenever \<open>formatTourData\<close> returns and \<open>availableDates\<close> is
  empty, \<open>seatsAvailable\<close> is 0, \<open>pricePerPerson\<close> is 0 and \<open>pricingTiers\<close> is empty.
  The four supplement fields are read from the first element of \<open>departures\<close> whatever
  its status, so they are 0 when \<open>departures\<close> is absent or an empty list.
\<close>

theorem no_dates_defaults:
  assumes res: "formatTourData P w = Inr r"
    and nodates: "availableDates r = []"
  shows "seatsAvailable r = Num 0 \<and> pricePerPerson r = Num 0 \<and> pricingTiers r = Arr []
    \<and> (getq (departureSchedule r) ''departures'' = Undefined
          \<or> getq (departureSchedule r) ''departures'' = Arr []
        \<longrightarrow> childWithBed r = Num 0 \<and> childWithoutBed r = Num 0
            \<and> extraAdultSameRoom r = Num 0 \<and> singleRoomSupplement r = Num 0)"
proof (cases "isArray (getq (parseSchedule P (departure_schedule w)) ''departures'')")
  case False
  from formatTourData_skip [OF False] res show ?thesis
    by (auto simp: js_or_def)
next
  case True
  then obtain ds where d: "getq (parseSchedule P (departure_schedule w)) ''departures'' = Arr ds"
    by (cases "getq (parseSchedule P (departure_schedule w)) ''departures''") auto
  have rd: "readable ds"
    using formatTourData_throw [OF d] res by auto
  from formatTourData_run [OF d rd] res
  have f: "availableDates r = map (\<lambda>d. getq d ''date'') (filter (\<lambda>d. \<not> sold_out d) ds)"
    "seatsAvailable r = seats_fold P (Num 0) (filter (\<lambda>d. \<not> sold_out d) ds)"
    "pricePerPerson r = js_or (getq (anchor_val ds) ''pricePerPerson'') (Num 0)"
    "pricingTiers r =
        (if truthy (getq (anchor_val ds) ''pricingTiers'')
            \<and> js_gt0 P (getq (getq (anchor_val ds) ''pricingTiers'') ''length'')
         then getq (anchor_val ds) ''pricingTiers'' else Arr [])"
    "childWithBed r = js_or (getq (elem0 (Arr ds)) ''childWithBed'') (Num 0)"
    "childWithoutBed r = js_or (getq (elem0 (Arr ds)) ''childWithoutBed'') (Num 0)"
    "extraAdultSameRoom r = js_or (getq (elem0 (Arr ds)) ''extraAdultSameRoom'') (Num 0)"
    "singleRoomSupplement r = js_or (getq (elem0 (Arr ds)) ''singleRoomSupplement'') (Num 0)"
    "departureSchedule r = parseSchedule P (departure_schedule w)"
    by auto
  have e: "filter (\<lambda>d. \<not> sold_out d) ds = []"
    using f(1) nodates by simp
  then have a: "anchor_val ds = Undefined"
    using anchor_None_iff [of ds] by (simp add: anchor_val_def)
  show ?thesis
    using f(2-9) e a d by (auto simp: js_or_def)
qed

theorem no_dates_defaults_witness:
  "(\<exists>r. formatTourData node (tour_with (schedule_of [dep_sold_500])) = Inr r
      \<and> availableDates r = [] \<and> seatsAvailable r = Num 0 \<and> pricePerPerson r = Num 0
      \<and> pricingTiers r = Arr [])
   \<and> (\<exists>r. formatTourData node (tour_with (schedule_of [])) = Inr r
      \<and> availableDates r = [] \<and> getq (departureSchedule r) ''departures'' = Arr []
      \<and> childWithBed r = Num 0 \<and> childWithoutBed r = Num 0
      \<and> extraAdultSameRoom r = Num 0 \<and> singleRoomSupplement r = Num 0)"
proof
  have "map_sum id availableDates
          (formatTourData node (tour_with (schedule_of [dep_sold_500]))) = Inr []"
    by code_simp
  then obtain r where r: "formatTourData node (tour_with (schedule_of [dep_sold_500])) = Inr r"
    "availableDates r = []"
    by (auto dest: map_sum_InrD)
  from no_dates_defaults [OF r] r
  show "\<exists>r. formatTourData node (tour_with (schedule_of [dep_sold_500])) = Inr r
      \<and> availableDates r = [] \<and> seatsAvailable r = Num 0 \<and> pricePerPerson r = Num 0
      \<and> pricingTiers r = Arr []"
    by blast
next
  have "map_sum id (\<lambda>r. (availableDates r, getq (departureSchedule r) ''departures''))
          (formatTourData node (tour_with (schedule_of []))) = Inr ([], Arr [])"
    by code_simp
  then obtain r where r: "formatTourData node (tour_with (schedule_of [])) = Inr r"
    "availableDates r = []" and d: "getq (departureSchedule r) ''departures'' = Arr []"
    by (auto dest: map_sum_InrD)
  from no_dates_defaults [OF r] r d
  show "\<exists>r. formatTourData node (tour_with (schedule_of [])) = Inr r
      \<and> availableDates r = [] \<and> getq (departureSchedule r) ''departures'' = Arr []
      \<and> childWithBed r = Num 0 \<and> childWithoutBed r = Num 0
      \<and> extraAdultSameRoom r = Num 0 \<and> singleRoomSupplement r = Num 0"
    by blast
qed

text \<open>
  C1 as stated fails: a schedule whose only departure is sold out and carries a child
  supplement of 500 has no available date, and \<open>childWithBed\<close> is 500.
\<close>

theorem no_dates_supplement_counterexample:
  "map_sum id availableDates
     (formatTourData node (tour_with (schedule_of [dep_sold_500]))) = Inr []
   \<and> map_sum id childWithBed
     (formatTourData node (tour_with (schedule_of [dep_sold_500]))) = Inr (Num 500)"
  by code_simp












text \<open>
  C6. A string that \<open>JSON.parse\<close> rejects is not an error for the caller:
  \<open>formatTourData\<close> returns, with no available date, 0 seats, price 0 and no pricing
  tiers, exactly as for an absent field.
\<close>

theorem malformed_string_defaults:
  assumes raw: "departure_schedule w = Str s"
    and bad: "JSON_parse P s = None"
  shows "(\<exists>r. formatTourData P w = Inr r
      \<and> availableDates r = [] \<and> seatsAvailable r = Num 0
      \<and> pricePerPerson r = Num 0 \<and> pricingTiers r = Arr [])
    \<and> formatTourData P w = formatTourData P (w\<lparr>departure_schedule := Undefined\<rparr>)"
proof -
  have n: "parseSchedule P (departure_schedule w) = Null"
    using raw bad by (simp add: parseSchedule_def)
  then have "\<not> isArray (getq (parseSchedule P (departure_schedule w)) ''departures'')"
    by simp
  from formatTourData_skip [OF this]
  have a: "\<exists>r. formatTourData P w = Inr r
      \<and> availableDates r = [] \<and> seatsAvailable r = Num 0
      \<and> pricePerPerson r = Num 0 \<and> pricingTiers r = Arr []"
    by blast
  have u: "parseSchedule P Undefined = Null"
    by (simp add: parseSchedule_def)
  have b: "formatTourData P w = formatTourData P (w\<lparr>departure_schedule := Undefined\<rparr>)"
    using n by (simp add: formatTourData_def Let_def u)
  from a b show ?thesis by simp
qed

theorem malformed_string_defaults_witness:
  "JSON_parse node ''{not valid json'' = None
   \<and> (\<exists>r. formatTourData node (tour_with (Str ''{not valid json'')) = Inr r
      \<and> availableDates r = [] \<and> seatsAvailable r = Num 0
      \<and> pricePerPerson r = Num 0 \<and> pricingTiers r = Arr [])"
proof -
  have raw: "departure_schedule (tour_with (Str ''{not valid json'')) = Str ''{not valid json''"
    by (simp add: tour_with_def)
  have bad: "JSON_parse node ''{not valid json'' = None"
    by code_simp
  from malformed_string_defaults [OF raw bad] bad show ?thesis
    by blast
qed

text \<open>
  C7. When the raw field is a string that \<open>JSON.parse\<close> decodes to a structured value
  (an object, an array or \<open>null\<close>), \<open>formatTourData\<close> gives the same result, error or
  record, as on that value passed directly.
\<close>

theorem text_and_structure_agree:
  assumes dec: "JSON_parse P s = Some v"
    and ne: "s \<noteq> []"
    and obj: "typeof v = ''object''"
  shows "formatTourData P (w\<lparr>departure_schedule := Str s\<rparr>) =
         formatTourData P (w\<lparr>departure_schedule := v\<rparr>)"
proof -
  have a: "parseSchedule P (Str s) = v"
    using dec ne by (simp add: parseSchedule_def)
  have b: "parseSchedule P v = v"
    using obj by (cases v) (simp_all add: parseSchedule_def)
  show ?thesis
    using ne by (auto simp add: formatTourData_def Let_def a b cong: sum.case_cong)
qed

theorem text_and_structure_agree_witness:
  "JSON_parse node spec_text = Some spec_structure
   \<and> formatTourData node (tour_with (Str spec_text)) =
     formatTourData node (tour_with spec_structure)"
proof -
  have dec: "JSON_parse node spec_text = Some spec_structure"
    by code_simp
  have ne: "spec_text \<noteq> []"
    by (simp add: spec_text_def)
  have obj: "typeof spec_structure = ''object''"
    by (simp add: spec_structure_def)
  from text_and_structure_agree [OF dec ne obj, of "tour_with Undefined"] dec
  show ?thesis
    by (simp add: tour_with_def)
qed






text \<open>
  C10. A raw field that is truthy but neither a string nor an object (a number that is
  not 0, or \<open>true\<close>) is ignored: \<open>formatTourData\<close> returns, with no available date, 0
  seats, price 0 and no pricing tiers, exactly as for an absent field.
\<close>

theorem other_types_defaults:
  assumes raw: "departure_schedule w = v"
    and t: "truthy v"
    and ns: "typeof v \<noteq> ''string''"
    and no: "typeof v \<noteq> ''object''"
  shows "(\<exists>r. formatTourData P w = Inr r
      \<and> availableDates r = [] \<and> seatsAvailable r = Num 0
      \<and> pricePerPerson r = Num 0 \<and> pricingTiers r = Arr [])
    \<and> formatTourData P w = formatTourData P (w\<lparr>departure_schedule := Undefined\<rparr>)"
proof -
  have n: "parseSchedule P (departure_schedule w) = Null"
    using raw ns no by (cases v) (simp_all add: parseSchedule_def)
  then have "\<not> isArray (getq (parseSchedule P (departure_schedule w)) ''departures'')"
    by simp
  from formatTourData_skip [OF this]
  have a: "\<exists>r. formatTourData P w = Inr r
      \<and> availableDates r = [] \<and> seatsAvailable r = Num 0
      \<and> pricePerPerson r = Num 0 \<and> pricingTiers r = Arr []"
    by blast
  have u: "parseSchedule P Undefined = Null"
    by (simp add: parseSchedule_def)
  have b: "formatTourData P w = formatTourData P (w\<lparr>departure_schedule := Undefined\<rparr>)"
    using n by (simp add: formatTourData_def Let_def u)
  from a b show ?thesis by simp
qed

theorem other_types_defaults_witness:
  "(\<exists>r. formatTourData node (tour_with (Num 42)) = Inr r
      \<and> availableDates r = [] \<and> seatsAvailable r = Num 0
      \<and> pricePerPerson r = Num 0 \<and> pricingTiers r = Arr [])
   \<and> formatTourData node (tour_with (Bool True)) = formatTourData node (tour_with Undefined)"
proof -
  have a: "departure_schedule (tour_with (Num 42)) = Num 42"
    "departure_schedule (tour_with (Bool True)) = Bool True"
    by (simp_all add: tour_with_def)
  have u: "(tour_with (Bool True))\<lparr>departure_schedule := Undefined\<rparr> = tour_with Undefined"
    by (simp add: tour_with_def)
  have t: "truthy (Num 42)" "typeof (Num 42) \<noteq> ''string''" "typeof (Num 42) \<noteq> ''object''"
    and b: "truthy (Bool True)" "typeof (Bool True) \<noteq> ''string''"
      "typeof (Bool True) \<noteq> ''object''"
    by simp_all
  show ?thesis
    using other_types_defaults [OF a(1) t, of node, THEN conjunct1]
      other_types_defaults [OF a(2) b, of node, THEN conjunct2]
    unfolding u by (rule conjI)
qed

end
